theory Spec2Isabelle
  imports Main "HOL-Library.Word" "HOL-Library.Monad_Syntax"
begin

section \<open>Memory model\<close>

text \<open>
  The header \<^verbatim>\<open>shared_ptr.h\<close> manipulates heap-allocated control blocks through
  pointers held by any number of handles, so the model keeps an explicit heap.  A control
  block pointer is an index into the list of cells of the heap; \<open>None\<close> is \<^verbatim>\<open>nullptr\<close>.
  An allocation appends a cell, so a new address is never one that is in use, and a
  deallocation empties the cell.  Using a block that is not allocated is undefined behaviour
  in C++; here every such operation returns \<open>None\<close>.

  \<^verbatim>\<open>size_t\<close> is taken to be 64 bits wide; \<^verbatim>\<open>++\<close> and \<^verbatim>\<open>--\<close> wrap around as unsigned
  arithmetic does.
\<close>

type_synonym addr = nat
type_synonym size_t = "64 word"

text \<open>
  A payload pointer (\<^verbatim>\<open>T*\<close>, \<^verbatim>\<open>Y*\<close>) is either the address of an object that the
  caller allocated, or the address of the storage \<^verbatim>\<open>data\<close> inside the control block at the
  given address (what \<^verbatim>\<open>control_block_obj::get\<close> returns); \<open>None\<close> is \<^verbatim>\<open>nullptr\<close>.
\<close>

datatype obj_ptr = Ext nat | Data addr
type_synonym raw_ptr = "obj_ptr option"

text \<open>
  Exceptions: the allocation failure of \<^verbatim>\<open>operator new\<close>, and whatever the constructor of
  a payload throws (identified by a number).
\<close>

datatype exn = Bad_alloc | Payload_exn nat

text \<open>
  The calls that leave the header are recorded in a trace, in the order in which they
  happen: the allocation and deallocation of a block, the invocation of a deleter \<open>d\<close> on a
  pointer, and the in-place destructor call \<^verbatim>\<open>~Y()\<close> on the storage of a block.
\<close>

datatype 'd event =
    Allocated addr
  | Deallocated addr
  | Invoke 'd raw_ptr
  | Dtor addr

text \<open>
  \<^verbatim>\<open>struct control_block\<close> holds the two counters; its two derived classes add the
  members that \<^verbatim>\<open>delete_object\<close> works on: \<^verbatim>\<open>control_block_ptr<Y, D>\<close> the adopted pointer
  and the deleter, \<^verbatim>\<open>control_block_obj<Y>\<close> the payload \<^verbatim>\<open>data\<close> itself.
\<close>

datatype ('d, 'y) variant =
    Control_block_ptr raw_ptr 'd
  | Control_block_obj 'y

record ('d, 'y) control_block =
  ref_count :: size_t
  weak_count :: size_t
  variant :: "('d, 'y) variant"

text \<open>
  \<open>mem_left\<close> is the number of allocations that \<^verbatim>\<open>operator new\<close> can still satisfy: at
  \<open>0\<close> it throws \<^verbatim>\<open>std::bad_alloc\<close>.
\<close>

record ('d, 'y) heap =
  cells :: "('d, 'y) control_block option list"
  mem_left :: nat
  trace :: "'d event list"

definition deref :: "('d, 'y) heap \<Rightarrow> addr \<Rightarrow> ('d, 'y) control_block option" where
  "deref h a = (if a < length (cells h) then cells h ! a else None)"

definition put :: "('d, 'y) heap \<Rightarrow> addr \<Rightarrow> ('d, 'y) control_block \<Rightarrow> ('d, 'y) heap" where
  "put h a b = h\<lparr>cells := (cells h)[a := Some b]\<rparr>"

definition log_event :: "('d, 'y) heap \<Rightarrow> 'd event \<Rightarrow> ('d, 'y) heap" where
  "log_event h e = h\<lparr>trace := trace h @ [e]\<rparr>"

definition operator_new :: "('d, 'y) heap \<Rightarrow> exn + addr \<times> ('d, 'y) heap" where
  "operator_new h =
     (if mem_left h = 0 then Inl Bad_alloc
      else Inr (length (cells h),
                h\<lparr>cells := cells h @ [None], mem_left := mem_left h - 1,
                  trace := trace h @ [Allocated (length (cells h))]\<rparr>))"

definition operator_delete :: "('d, 'y) heap \<Rightarrow> addr \<Rightarrow> ('d, 'y) heap" where
  "operator_delete h a =
     h\<lparr>cells := (cells h)[a := None], mem_left := mem_left h + 1,
       trace := trace h @ [Deallocated a]\<rparr>"

section \<open>control_block\<close>

text \<open>
  \<^verbatim>\<open>delete_object\<close> is the one virtual function: \<^verbatim>\<open>control_block_ptr\<close> calls the deleter on
  the stored pointer, \<^verbatim>\<open>control_block_obj\<close> calls the destructor of the payload in place.
\<close>

definition delete_object :: "('d, 'y) heap \<Rightarrow> addr \<Rightarrow> ('d, 'y) heap option" where
  "delete_object h a =
     do { b \<leftarrow> deref h a;
          Some (log_event h (case variant b of
                               Control_block_ptr p d \<Rightarrow> Invoke d p
                             | Control_block_obj y \<Rightarrow> Dtor a)) }"

definition release_ref :: "('d, 'y) heap \<Rightarrow> addr \<Rightarrow> ('d, 'y) heap option" where
  "release_ref h a =
     do { b \<leftarrow> deref h a;
          let h1 = put h a (b\<lparr>ref_count := ref_count b - 1\<rparr>);
          if ref_count b - 1 = 0 then delete_object h1 a else Some h1 }"

definition release_weak :: "('d, 'y) heap \<Rightarrow> addr \<Rightarrow> ('d, 'y) heap option" where
  "release_weak h a =
     do { b \<leftarrow> deref h a; Some (put h a (b\<lparr>weak_count := weak_count b - 1\<rparr>)) }"

definition add_ref :: "('d, 'y) heap \<Rightarrow> addr \<Rightarrow> ('d, 'y) heap option" where
  "add_ref h a =
     do { b \<leftarrow> deref h a; Some (put h a (b\<lparr>ref_count := ref_count b + 1\<rparr>)) }"

definition add_weak :: "('d, 'y) heap \<Rightarrow> addr \<Rightarrow> ('d, 'y) heap option" where
  "add_weak h a =
     do { b \<leftarrow> deref h a; Some (put h a (b\<lparr>weak_count := weak_count b + 1\<rparr>)) }"

text \<open>\<^verbatim>\<open>control_block::use_count\<close> and \<^verbatim>\<open>control_block::weak_use_count\<close>.\<close>

definition cb_use_count :: "('d, 'y) heap \<Rightarrow> addr \<Rightarrow> size_t option" where
  "cb_use_count h a = map_option ref_count (deref h a)"

definition weak_use_count :: "('d, 'y) heap \<Rightarrow> addr \<Rightarrow> size_t option" where
  "weak_use_count h a = map_option weak_count (deref h a)"

text \<open>
  A block starts with \<^verbatim>\<open>ref_count = 1\<close> and \<^verbatim>\<open>weak_count = 0\<close>.  The expression
  \<^verbatim>\<open>new control_block_ptr(p, deleter)\<close> allocates and then runs a constructor that only
  stores its arguments.
\<close>

definition new_control_block_ptr ::
  "('d, 'y) heap \<Rightarrow> raw_ptr \<Rightarrow> 'd \<Rightarrow> exn + addr \<times> ('d, 'y) heap" where
  "new_control_block_ptr h p d =
     (case operator_new h of
        Inl e \<Rightarrow> Inl e
      | Inr (a, h1) \<Rightarrow>
          Inr (a, put h1 a \<lparr>ref_count = 1, weak_count = 0, variant = Control_block_ptr p d\<rparr>))"

text \<open>
  \<^verbatim>\<open>new control_block_obj<A>(args...)\<close> allocates and then runs a constructor whose body
  constructs the payload in \<^verbatim>\<open>data\<close>.  The constructor of the payload is the function
  \<open>ctor\<close>, which returns the payload or the exception it throws.  When the constructor of
  an object created by a new-expression throws, the language releases the storage with
  \<^verbatim>\<open>operator delete\<close> and the exception propagates; no destructor of the object under
  construction runs, and \<^verbatim>\<open>delete_object\<close> is not called.
\<close>

definition new_control_block_obj ::
  "('d, 'y) heap \<Rightarrow> ('args \<Rightarrow> exn + 'y) \<Rightarrow> 'args \<Rightarrow> (exn + addr) \<times> ('d, 'y) heap" where
  "new_control_block_obj h ctor args =
     (case operator_new h of
        Inl e \<Rightarrow> (Inl e, h)
      | Inr (a, h1) \<Rightarrow>
          (case ctor args of
             Inl e \<Rightarrow> (Inl e, operator_delete h1 a)
           | Inr y \<Rightarrow>
               (Inr a, put h1 a \<lparr>ref_count = 1, weak_count = 0, variant = Control_block_obj y\<rparr>)))"

text \<open>
  \<^verbatim>\<open>delete cb\<close> runs the (defaulted) virtual destructor, which touches neither counter nor
  payload, and releases the storage.
\<close>

definition delete_cb :: "('d, 'y) heap \<Rightarrow> addr \<Rightarrow> ('d, 'y) heap option" where
  "delete_cb h a = do { b \<leftarrow> deref h a; Some (operator_delete h a) }"

section \<open>shared_ptr\<close>

record shared_ptr =
  cb :: "addr option"
  ptr :: raw_ptr

text \<open>The default constructor and the constructor from \<^verbatim>\<open>std::nullptr_t\<close>.\<close>

definition shared_ptr_empty :: shared_ptr where
  "shared_ptr_empty = \<lparr>cb = None, ptr = None\<rparr>"

text \<open>
  Every operation on a handle takes the heap and returns it, changed or not, so that what an
  operation does to the counters can be stated.  The copy constructor (lines 97 to 101; the
  converting one of lines 90 to 95 has the same body):
\<close>

definition shared_ptr_copy ::
  "('d, 'y) heap \<Rightarrow> shared_ptr \<Rightarrow> (shared_ptr \<times> ('d, 'y) heap) option" where
  "shared_ptr_copy h rhs =
     (let this = \<lparr>cb = cb rhs, ptr = ptr rhs\<rparr> in
      case cb this of
        None \<Rightarrow> Some (this, h)
      | Some a \<Rightarrow> do { h1 \<leftarrow> add_ref h a; Some (this, h1) })"

text \<open>
  \<^verbatim>\<open>shared_ptr(Y* p, D deleter)\<close>: the handler of the try block calls the deleter and
  rethrows.
\<close>

definition shared_ptr_ctor ::
  "('d, 'y) heap \<Rightarrow> raw_ptr \<Rightarrow> 'd \<Rightarrow> (exn + shared_ptr) \<times> ('d, 'y) heap" where
  "shared_ptr_ctor h p deleter =
     (case new_control_block_ptr h p deleter of
        Inr (a, h1) \<Rightarrow> (Inr \<lparr>cb = Some a, ptr = p\<rparr>, h1)
      | Inl e \<Rightarrow> (Inl e, log_event h (Invoke deleter p)))"

text \<open>The aliasing constructor \<^verbatim>\<open>shared_ptr(shared_ptr<Y> const& r, T* ptr)\<close>.\<close>

definition shared_ptr_alias ::
  "('d, 'y) heap \<Rightarrow> shared_ptr \<Rightarrow> raw_ptr \<Rightarrow> (shared_ptr \<times> ('d, 'y) heap) option" where
  "shared_ptr_alias h r p =
     (let this = \<lparr>cb = cb r, ptr = p\<rparr> in
      case cb this of
        None \<Rightarrow> Some (this, h)
      | Some a \<Rightarrow> do { h1 \<leftarrow> add_ref h a; Some (this, h1) })"

text \<open>
  The move constructor returns the new handle and what it leaves in \<^verbatim>\<open>rhs\<close>.
\<close>

definition shared_ptr_move ::
  "('d, 'y) heap \<Rightarrow> shared_ptr \<Rightarrow> shared_ptr \<times> shared_ptr \<times> ('d, 'y) heap" where
  "shared_ptr_move h rhs =
     (let this = \<lparr>cb = cb rhs, ptr = ptr rhs\<rparr> in
      (this, rhs\<lparr>cb := None, ptr := None\<rparr>, h))"

definition shared_ptr_bool :: "shared_ptr \<Rightarrow> bool" where
  "shared_ptr_bool this = (ptr this \<noteq> None)"

definition shared_ptr_get :: "shared_ptr \<Rightarrow> raw_ptr" where
  "shared_ptr_get this = ptr this"

definition shared_ptr_use_count :: "('d, 'y) heap \<Rightarrow> shared_ptr \<Rightarrow> size_t option" where
  "shared_ptr_use_count h this =
     (case cb this of Some a \<Rightarrow> cb_use_count h a | None \<Rightarrow> Some 0)"

text \<open>\<^verbatim>\<open>this->swap(r)\<close> returns the new \<^verbatim>\<open>*this\<close> and the new \<^verbatim>\<open>r\<close>.\<close>

definition shared_ptr_swap :: "shared_ptr \<Rightarrow> shared_ptr \<Rightarrow> shared_ptr \<times> shared_ptr" where
  "shared_ptr_swap this r =
     (this\<lparr>ptr := ptr r, cb := cb r\<rparr>, r\<lparr>ptr := ptr this, cb := cb this\<rparr>)"

definition shared_ptr_dtor :: "('d, 'y) heap \<Rightarrow> shared_ptr \<Rightarrow> ('d, 'y) heap option" where
  "shared_ptr_dtor h this =
     (case cb this of
        None \<Rightarrow> Some h
      | Some a \<Rightarrow>
          do { h1 \<leftarrow> release_ref h a;
               u \<leftarrow> cb_use_count h1 a;
               w \<leftarrow> weak_use_count h1 a;
               if u = 0 \<and> w = 0 then delete_cb h1 a else Some h1 })"

text \<open>The operators \<^verbatim>\<open>==\<close> and \<^verbatim>\<open>!=\<close> against \<^verbatim>\<open>nullptr\<close> and between handles.\<close>

definition shared_ptr_eq :: "shared_ptr \<Rightarrow> shared_ptr \<Rightarrow> bool" where
  "shared_ptr_eq lhs rhs = (shared_ptr_get lhs = shared_ptr_get rhs)"

definition shared_ptr_eq_nullptr :: "shared_ptr \<Rightarrow> bool" where
  "shared_ptr_eq_nullptr lhs = (shared_ptr_get lhs = None)"

definition shared_ptr_ne_nullptr :: "shared_ptr \<Rightarrow> bool" where
  "shared_ptr_ne_nullptr lhs = (shared_ptr_get lhs \<noteq> None)"

text \<open>
  \<^verbatim>\<open>make_shared<A>(args...)\<close>: when the new-expression throws, nothing after it runs.
\<close>

definition make_shared ::
  "('d, 'y) heap \<Rightarrow> ('args \<Rightarrow> exn + 'y) \<Rightarrow> 'args \<Rightarrow> (exn + shared_ptr) \<times> ('d, 'y) heap" where
  "make_shared h ctor args =
     (case new_control_block_obj h ctor args of
        (Inl e, h1) \<Rightarrow> (Inl e, h1)
      | (Inr bl, h1) \<Rightarrow>
          (let cur = shared_ptr_empty;
               cur = cur\<lparr>cb := Some bl\<rparr>;
               cur = cur\<lparr>ptr := Some (Data bl)\<rparr>
           in (Inr cur, h1)))"

section \<open>weak_ptr\<close>

text \<open>
  The fields of \<^verbatim>\<open>weak_ptr\<close> are \<^verbatim>\<open>cb\<close> and \<^verbatim>\<open>ptr\<close> as well; they are named
  \<open>wcb\<close> and \<open>wptr\<close> here, since two records cannot share a field name.
\<close>

record weak_ptr =
  wcb :: "addr option"
  wptr :: raw_ptr

definition weak_ptr_empty :: weak_ptr where
  "weak_ptr_empty = \<lparr>wcb = None, wptr = None\<rparr>"

definition weak_ptr_copy ::
  "('d, 'y) heap \<Rightarrow> weak_ptr \<Rightarrow> (weak_ptr \<times> ('d, 'y) heap) option" where
  "weak_ptr_copy h r =
     (let this = \<lparr>wcb = wcb r, wptr = wptr r\<rparr> in
      case wcb this of
        None \<Rightarrow> Some (this, h)
      | Some a \<Rightarrow> do { h1 \<leftarrow> add_weak h a; Some (this, h1) })"

definition weak_ptr_move ::
  "('d, 'y) heap \<Rightarrow> weak_ptr \<Rightarrow> weak_ptr \<times> weak_ptr \<times> ('d, 'y) heap" where
  "weak_ptr_move h r =
     (let this = \<lparr>wcb = wcb r, wptr = wptr r\<rparr> in
      (this, r\<lparr>wcb := None, wptr := None\<rparr>, h))"

text \<open>\<^verbatim>\<open>weak_ptr(shared_ptr<Y> const& r)\<close>.\<close>

definition weak_ptr_from_shared ::
  "('d, 'y) heap \<Rightarrow> shared_ptr \<Rightarrow> (weak_ptr \<times> ('d, 'y) heap) option" where
  "weak_ptr_from_shared h r =
     (let this = \<lparr>wcb = cb r, wptr = ptr r\<rparr> in
      case wcb this of
        None \<Rightarrow> Some (this, h)
      | Some a \<Rightarrow> do { h1 \<leftarrow> add_weak h a; Some (this, h1) })"

text \<open>\<^verbatim>\<open>shared_ptr(weak_ptr<Y> const& r)\<close>, lines 129 to 134 of the header.\<close>

definition shared_ptr_from_weak ::
  "('d, 'y) heap \<Rightarrow> weak_ptr \<Rightarrow> (shared_ptr \<times> ('d, 'y) heap) option" where
  "shared_ptr_from_weak h r =
     (let this = \<lparr>cb = wcb r, ptr = wptr r\<rparr> in
      case cb this of
        None \<Rightarrow> Some (this, h)
      | Some a \<Rightarrow> do { h1 \<leftarrow> add_ref h a; Some (this, h1) })"

definition weak_ptr_use_count :: "('d, 'y) heap \<Rightarrow> weak_ptr \<Rightarrow> size_t option" where
  "weak_ptr_use_count h this =
     (case wcb this of None \<Rightarrow> Some 0 | Some a \<Rightarrow> cb_use_count h a)"

definition expired :: "('d, 'y) heap \<Rightarrow> weak_ptr \<Rightarrow> bool option" where
  "expired h this = do { n \<leftarrow> weak_ptr_use_count h this; Some (n = 0) }"

definition lock :: "('d, 'y) heap \<Rightarrow> weak_ptr \<Rightarrow> (shared_ptr \<times> ('d, 'y) heap) option" where
  "lock h this =
     do { e \<leftarrow> expired h this;
          if \<not> e then shared_ptr_from_weak h this else Some (shared_ptr_empty, h) }"

definition weak_ptr_swap :: "weak_ptr \<Rightarrow> weak_ptr \<Rightarrow> weak_ptr \<times> weak_ptr" where
  "weak_ptr_swap this rhs =
     (this\<lparr>wcb := wcb rhs, wptr := wptr rhs\<rparr>, rhs\<lparr>wcb := wcb this, wptr := wptr this\<rparr>)"

definition weak_ptr_dtor :: "('d, 'y) heap \<Rightarrow> weak_ptr \<Rightarrow> ('d, 'y) heap option" where
  "weak_ptr_dtor h this =
     (case wcb this of
        None \<Rightarrow> Some h
      | Some a \<Rightarrow>
          do { h1 \<leftarrow> release_weak h a;
               u \<leftarrow> cb_use_count h1 a;
               w \<leftarrow> weak_use_count h1 a;
               if u = 0 \<and> w = 0 then delete_cb h1 a else Some h1 })"

section \<open>Assignment\<close>

text \<open>
  The assignment operators take \<^verbatim>\<open>*this\<close> and \<^verbatim>\<open>rhs\<close> by reference, and the two
  references may name the same object.  The handles therefore live in a store of variables,
  and an operator gets the names of the two variables.  The temporary that an operator
  constructs is a fresh object outside the store; it is destroyed at the end of the full
  expression.
\<close>

type_synonym var = nat

definition shared_ptr_copy_assign ::
  "('d, 'y) heap \<Rightarrow> (var \<Rightarrow> shared_ptr) \<Rightarrow> var \<Rightarrow> var
     \<Rightarrow> (('d, 'y) heap \<times> (var \<Rightarrow> shared_ptr)) option" where
  "shared_ptr_copy_assign h st this rhs =
     do { (tmp, h1) \<leftarrow> shared_ptr_copy h (st rhs);
          let (tmp', this') = shared_ptr_swap tmp (st this);
          let st1 = st(this := this');
          h2 \<leftarrow> shared_ptr_dtor h1 tmp';
          Some (h2, st1) }"

definition shared_ptr_move_assign ::
  "('d, 'y) heap \<Rightarrow> (var \<Rightarrow> shared_ptr) \<Rightarrow> var \<Rightarrow> var
     \<Rightarrow> (('d, 'y) heap \<times> (var \<Rightarrow> shared_ptr)) option" where
  "shared_ptr_move_assign h st this rhs =
     (if this \<noteq> rhs then
        do { let (tmp, rhs', h1) = shared_ptr_move h (st rhs);
             let st1 = st(rhs := rhs');
             let (tmp', this') = shared_ptr_swap tmp (st1 this);
             let st2 = st1(this := this');
             h2 \<leftarrow> shared_ptr_dtor h1 tmp';
             Some (h2, st2) }
      else Some (h, st))"

definition weak_ptr_copy_assign ::
  "('d, 'y) heap \<Rightarrow> (var \<Rightarrow> weak_ptr) \<Rightarrow> var \<Rightarrow> var
     \<Rightarrow> (('d, 'y) heap \<times> (var \<Rightarrow> weak_ptr)) option" where
  "weak_ptr_copy_assign h st this rhs =
     do { (tmp, h1) \<leftarrow> weak_ptr_copy h (st rhs);
          let (tmp', this') = weak_ptr_swap tmp (st this);
          let st1 = st(this := this');
          h2 \<leftarrow> weak_ptr_dtor h1 tmp';
          Some (h2, st1) }"

definition weak_ptr_move_assign ::
  "('d, 'y) heap \<Rightarrow> (var \<Rightarrow> weak_ptr) \<Rightarrow> var \<Rightarrow> var
     \<Rightarrow> (('d, 'y) heap \<times> (var \<Rightarrow> weak_ptr)) option" where
  "weak_ptr_move_assign h st this rhs =
     (if this \<noteq> rhs then
        do { let (tmp, rhs', h1) = weak_ptr_move h (st rhs);
             let st1 = st(rhs := rhs');
             let (tmp', this') = weak_ptr_swap tmp (st1 this);
             let st2 = st1(this := this');
             h2 \<leftarrow> weak_ptr_dtor h1 tmp';
             Some (h2, st2) }
      else Some (h, st))"

section \<open>Sequences of operations on one control block\<close>

text \<open>
  What \<^verbatim>\<open>delete_object\<close> of a block at address \<open>a\<close> with members \<open>v\<close> leaves in
  the trace.
\<close>

definition payload_event :: "addr \<Rightarrow> ('d, 'y) variant \<Rightarrow> 'd event" where
  "payload_event a v =
     (case v of Control_block_ptr p d \<Rightarrow> Invoke d p | Control_block_obj y \<Rightarrow> Dtor a)"

text \<open>
  The operations that create or destroy a handle on a given control block.  Moves and swaps
  leave the heap alone and create no handle, so they are not listed.
\<close>

datatype op =
    Copy_shared
  | Destroy_shared
  | Weak_from_shared
  | Copy_weak
  | Destroy_weak
  | Lock
  | Upgrade

definition step ::
  "addr \<Rightarrow> raw_ptr \<Rightarrow> ('d, 'y) heap \<Rightarrow> op \<Rightarrow> ('d, 'y) heap option" where
  "step a p h x =
     (case x of
        Copy_shared \<Rightarrow> map_option snd (shared_ptr_copy h \<lparr>cb = Some a, ptr = p\<rparr>)
      | Destroy_shared \<Rightarrow> shared_ptr_dtor h \<lparr>cb = Some a, ptr = p\<rparr>
      | Weak_from_shared \<Rightarrow> map_option snd (weak_ptr_from_shared h \<lparr>cb = Some a, ptr = p\<rparr>)
      | Copy_weak \<Rightarrow> map_option snd (weak_ptr_copy h \<lparr>wcb = Some a, wptr = p\<rparr>)
      | Destroy_weak \<Rightarrow> weak_ptr_dtor h \<lparr>wcb = Some a, wptr = p\<rparr>
      | Lock \<Rightarrow> map_option snd (lock h \<lparr>wcb = Some a, wptr = p\<rparr>)
      | Upgrade \<Rightarrow> map_option snd (shared_ptr_from_weak h \<lparr>wcb = Some a, wptr = p\<rparr>))"

fun exec :: "addr \<Rightarrow> raw_ptr \<Rightarrow> ('d, 'y) heap \<Rightarrow> op list \<Rightarrow> ('d, 'y) heap option" where
  "exec a p h [] = Some h"
| "exec a p h (x # xs) = do { h1 \<leftarrow> step a p h x; exec a p h1 xs }"

text \<open>
  The bookkeeping of the caller: how many Shared Pointers \<open>s\<close> and Weak Pointers \<open>w\<close>
  on the block are in scope.  \<^verbatim>\<open>lock\<close> on a Weak Pointer whose payload has no owner
  returns the empty handle, which is no handle on the block.
\<close>

fun owners :: "nat \<times> nat \<Rightarrow> op \<Rightarrow> nat \<times> nat" where
  "owners (s, w) Copy_shared = (s + 1, w)"
| "owners (s, w) Destroy_shared = (s - 1, w)"
| "owners (s, w) Weak_from_shared = (s, w + 1)"
| "owners (s, w) Copy_weak = (s, w + 1)"
| "owners (s, w) Destroy_weak = (s, w - 1)"
| "owners (s, w) Lock = (if s = 0 then 0 else s + 1, w)"
| "owners (s, w) Upgrade = (s + 1, w)"

fun final_owners :: "nat \<times> nat \<Rightarrow> op list \<Rightarrow> nat \<times> nat" where
  "final_owners c [] = c"
| "final_owners c (x # xs) = final_owners (owners c x) xs"

text \<open>
  An operation is enabled when the handle that it copies, locks or destroys is in scope; a
  sequence respects the protocol when every destruction is that of a handle constructed
  before, that is, when every release follows its add.
\<close>

fun enabled :: "nat \<times> nat \<Rightarrow> op \<Rightarrow> bool" where
  "enabled (s, w) Copy_shared = (0 < s)"
| "enabled (s, w) Destroy_shared = (0 < s)"
| "enabled (s, w) Weak_from_shared = (0 < s)"
| "enabled (s, w) Copy_weak = (0 < w)"
| "enabled (s, w) Destroy_weak = (0 < w)"
| "enabled (s, w) Lock = (0 < w)"
| "enabled (s, w) Upgrade = (0 < w)"

fun respects_protocol :: "nat \<times> nat \<Rightarrow> op list \<Rightarrow> bool" where
  "respects_protocol c [] = True"
| "respects_protocol c (x # xs) = (enabled c x \<and> respects_protocol (owners c x) xs)"

text \<open>
  Two further conditions on a sequence.  It is bounded when the number of handles of either
  kind stays below \<open>2 ^ 64\<close>, so that no counter wraps around.  Its upgrades are live
  when the converting constructor \<open>Upgrade\<close> is only applied to a Weak Pointer whose
  payload still has an owner.
\<close>

fun bounded :: "nat \<times> nat \<Rightarrow> op list \<Rightarrow> bool" where
  "bounded c [] = True"
| "bounded c (x # xs) =
     (fst (owners c x) < 2 ^ 64 \<and> snd (owners c x) < 2 ^ 64 \<and> bounded (owners c x) xs)"

fun upgrades_live :: "nat \<times> nat \<Rightarrow> op list \<Rightarrow> bool" where
  "upgrades_live c [] = True"
| "upgrades_live c (x # xs) = ((x = Upgrade \<longrightarrow> 0 < fst c) \<and> upgrades_live (owners c x) xs)"

text \<open>
  The events that the handles on a block have caused once \<open>s\<close> Shared Pointers and \<open>w\<close>
  Weak Pointers are left: the destruction of the payload when no Shared Pointer is left,
  followed by the deallocation of the block when no handle at all is left.
\<close>

definition events :: "addr \<Rightarrow> ('d, 'y) variant \<Rightarrow> nat \<times> nat \<Rightarrow> 'd event list" where
  "events a v c =
     (if fst c = 0 then [payload_event a v] else []) @
     (if fst c = 0 \<and> snd c = 0 then [Deallocated a] else [])"

text \<open>
  The state of the block at address \<open>a\<close> that corresponds to \<open>s\<close> Shared Pointers and
  \<open>w\<close> Weak Pointers in scope: the counters are \<open>s\<close> and \<open>w\<close>, and the block is
  gone when both are \<open>0\<close>.
\<close>

definition block_inv ::
  "addr \<Rightarrow> ('d, 'y) variant \<Rightarrow> ('d, 'y) heap \<Rightarrow> nat \<times> nat \<Rightarrow> bool" where
  "block_inv a v h c =
     (if fst c = 0 \<and> snd c = 0 then deref h a = None
      else (\<exists>b. deref h a = Some b \<and> unat (ref_count b) = fst c \<and>
                 unat (weak_count b) = snd c \<and> variant b = v))"

section \<open>Well-formed handles\<close>

text \<open>
  The invariant of a handle in the data model: a Shared Pointer with a control block holds
  one of its strong references, a Weak Pointer with a control block one of its weak
  references, and the block is allocated.
\<close>

definition shared_ptr_valid :: "('d, 'y) heap \<Rightarrow> shared_ptr \<Rightarrow> bool" where
  "shared_ptr_valid h this =
     (case cb this of
        None \<Rightarrow> True
      | Some a \<Rightarrow> (case deref h a of None \<Rightarrow> False | Some b \<Rightarrow> ref_count b \<noteq> 0))"

definition weak_ptr_valid :: "('d, 'y) heap \<Rightarrow> weak_ptr \<Rightarrow> bool" where
  "weak_ptr_valid h this =
     (case wcb this of
        None \<Rightarrow> True
      | Some a \<Rightarrow> (case deref h a of None \<Rightarrow> False | Some b \<Rightarrow> weak_count b \<noteq> 0))"

section \<open>Example states\<close>

text \<open>
  The concrete states of the examples: an empty heap with room for one block; the heap
  after \<^verbatim>\<open>shared_ptr<int> p(new int, d)\<close> with the object at address \<open>7\<close> and the
  deleter \<open>3\<close>, for given values of the counters and given events after the allocation;
  and handles on that block.
\<close>

abbreviation heap0 :: "(nat, nat) heap" where
  "heap0 \<equiv> \<lparr>cells = [], mem_left = 1, trace = []\<rparr>"

abbreviation block0 :: "size_t \<Rightarrow> size_t \<Rightarrow> (nat, nat) control_block" where
  "block0 s w \<equiv>
     \<lparr>ref_count = s, weak_count = w, variant = Control_block_ptr (Some (Ext 7)) 3\<rparr>"

abbreviation heap1 :: "size_t \<Rightarrow> size_t \<Rightarrow> nat event list \<Rightarrow> (nat, nat) heap" where
  "heap1 s w t \<equiv> \<lparr>cells = [Some (block0 s w)], mem_left = 0, trace = Allocated 0 # t\<rparr>"

abbreviation shared0 :: shared_ptr where
  "shared0 \<equiv> \<lparr>cb = Some 0, ptr = Some (Ext 7)\<rparr>"

abbreviation weak0 :: weak_ptr where
  "weak0 \<equiv> \<lparr>wcb = Some 0, wptr = Some (Ext 7)\<rparr>"

text \<open>
  The heap after \<^verbatim>\<open>shared_ptr<int> p((int*) nullptr, d)\<close> and the handle \<^verbatim>\<open>p\<close>.
\<close>

abbreviation heap2 :: "(nat, nat) heap" where
  "heap2 \<equiv>
     \<lparr>cells = [Some \<lparr>ref_count = 1, weak_count = 0, variant = Control_block_ptr None 3\<rparr>],
      mem_left = 0, trace = [Allocated 0]\<rparr>"

abbreviation shared2 :: shared_ptr where
  "shared2 \<equiv> \<lparr>cb = Some 0, ptr = None\<rparr>"

text \<open>
  Stores in which the variable \<open>0\<close> holds a handle on the block of the example and
  every other variable an empty handle.
\<close>

abbreviation shared_vars :: "var \<Rightarrow> shared_ptr" where
  "shared_vars \<equiv> (\<lambda>_. shared_ptr_empty)(0 := shared0)"

abbreviation weak_vars :: "var \<Rightarrow> weak_ptr" where
  "weak_vars \<equiv> (\<lambda>_. weak_ptr_empty)(0 := weak0)"

text \<open>
  The constructor of an example payload: it throws when its argument is negative.
\<close>

definition natural :: "int \<Rightarrow> exn + nat" where
  "natural i = (if i < 0 then Inl (Payload_exn 1) else Inr (nat i))"

section \<open>The heap and the methods of a live control block\<close>

lemma deref_put_same: "deref h a = Some b0 \<Longrightarrow> deref (put h a b) a = Some b"
  by (auto simp: deref_def put_def split: if_splits)

lemma deref_put_other: "a' \<noteq> a \<Longrightarrow> deref (put h a b) a' = deref h a'"
  by (auto simp: deref_def put_def)

lemma put_put: "put (put h a b) a b' = put h a b'"
  by (simp add: put_def)

lemma put_same: "deref h a = Some b \<Longrightarrow> put h a b = h"
  by (auto simp: deref_def put_def list_update_same_conv split: if_splits)

lemma trace_put: "trace (put h a b) = trace h"
  by (simp add: put_def)

lemma mem_left_put: "mem_left (put h a b) = mem_left h"
  by (simp add: put_def)

lemma deref_log_event: "deref (log_event h e) a = deref h a"
  by (simp add: deref_def log_event_def)

lemma trace_log_event: "trace (log_event h e) = trace h @ [e]"
  by (simp add: log_event_def)

lemma mem_left_log_event: "mem_left (log_event h e) = mem_left h"
  by (simp add: log_event_def)

lemma deref_operator_delete_same: "deref (operator_delete h a) a = None"
  by (simp add: deref_def operator_delete_def)

lemma deref_operator_delete_other: "a' \<noteq> a \<Longrightarrow> deref (operator_delete h a) a' = deref h a'"
  by (simp add: deref_def operator_delete_def)

lemma trace_operator_delete: "trace (operator_delete h a) = trace h @ [Deallocated a]"
  by (simp add: operator_delete_def)

lemma add_ref_live:
  "deref h a = Some b \<Longrightarrow> add_ref h a = Some (put h a (b\<lparr>ref_count := ref_count b + 1\<rparr>))"
  by (simp add: add_ref_def)

lemma add_weak_live:
  "deref h a = Some b \<Longrightarrow> add_weak h a = Some (put h a (b\<lparr>weak_count := weak_count b + 1\<rparr>))"
  by (simp add: add_weak_def)

lemma release_weak_live:
  "deref h a = Some b \<Longrightarrow> release_weak h a = Some (put h a (b\<lparr>weak_count := weak_count b - 1\<rparr>))"
  by (simp add: release_weak_def)

lemma delete_object_live:
  "deref h a = Some b \<Longrightarrow> delete_object h a = Some (log_event h (payload_event a (variant b)))"
  by (simp add: delete_object_def payload_event_def)

lemma release_ref_live:
  "deref h a = Some b \<Longrightarrow>
   release_ref h a =
     Some (if ref_count b = 1
           then log_event (put h a (b\<lparr>ref_count := 0\<rparr>)) (payload_event a (variant b))
           else put h a (b\<lparr>ref_count := ref_count b - 1\<rparr>))"
  by (auto simp: release_ref_def Let_def delete_object_live deref_put_same)

lemma cb_use_count_live: "deref h a = Some b \<Longrightarrow> cb_use_count h a = Some (ref_count b)"
  by (simp add: cb_use_count_def)

lemma weak_use_count_live: "deref h a = Some b \<Longrightarrow> weak_use_count h a = Some (weak_count b)"
  by (simp add: weak_use_count_def)

lemma delete_cb_live: "deref h a = Some b \<Longrightarrow> delete_cb h a = Some (operator_delete h a)"
  by (simp add: delete_cb_def)

lemma shared_ptr_dtor_live:
  assumes "deref h a = Some b" and "cb this = Some a"
  shows "shared_ptr_dtor h this =
     Some (if ref_count b = 1
           then (if weak_count b = 0
                 then operator_delete
                        (log_event (put h a (b\<lparr>ref_count := 0\<rparr>)) (payload_event a (variant b))) a
                 else log_event (put h a (b\<lparr>ref_count := 0\<rparr>)) (payload_event a (variant b)))
           else put h a (b\<lparr>ref_count := ref_count b - 1\<rparr>))"
  using assms
  by (simp add: shared_ptr_dtor_def release_ref_live cb_use_count_live weak_use_count_live
      delete_cb_live deref_put_same deref_log_event)

lemma weak_ptr_dtor_live:
  assumes "deref h a = Some b" and "wcb this = Some a"
  shows "weak_ptr_dtor h this =
     Some (if ref_count b = 0 \<and> weak_count b = 1
           then operator_delete (put h a (b\<lparr>weak_count := 0\<rparr>)) a
           else put h a (b\<lparr>weak_count := weak_count b - 1\<rparr>))"
  using assms
  by (simp add: weak_ptr_dtor_def release_weak_live cb_use_count_live weak_use_count_live
      delete_cb_live deref_put_same)

lemma shared_ptr_copy_live:
  assumes "deref h a = Some b" and "cb rhs = Some a"
  shows "shared_ptr_copy h rhs =
     Some (\<lparr>cb = Some a, ptr = ptr rhs\<rparr>, put h a (b\<lparr>ref_count := ref_count b + 1\<rparr>))"
  using assms by (simp add: shared_ptr_copy_def add_ref_live)

lemma shared_ptr_ctor_ok:
  assumes "shared_ptr_ctor h p d = (Inr p1, h1)"
  shows "p1 = \<lparr>cb = Some (length (cells h)), ptr = p\<rparr> \<and>
         deref h1 (length (cells h)) =
           Some \<lparr>ref_count = 1, weak_count = 0, variant = Control_block_ptr p d\<rparr> \<and>
         trace h1 = trace h @ [Allocated (length (cells h))]"
  using assms
  by (auto simp: shared_ptr_ctor_def new_control_block_ptr_def operator_new_def deref_def put_def
      split: if_splits)

section \<open>The counters follow the handles\<close>

lemma unat_dec: "x \<noteq> 0 \<Longrightarrow> unat (x - 1 :: size_t) = unat x - 1"
  by (simp add: unat_minus_one)

lemma unat_inc: "unat x + 1 < 2 ^ 64 \<Longrightarrow> unat (x + 1 :: size_t) = unat x + 1"
  by (simp add: unat_add_lem [THEN iffD1])

lemma unat_is_1: "(unat (x :: size_t) = Suc 0) = (x = 1)"
  using word_unat_eq_iff [of x 1] by simp

lemma weak_ptr_copy_live:
  assumes "deref h a = Some b" and "wcb r = Some a"
  shows "weak_ptr_copy h r =
     Some (\<lparr>wcb = Some a, wptr = wptr r\<rparr>, put h a (b\<lparr>weak_count := weak_count b + 1\<rparr>))"
  using assms by (simp add: weak_ptr_copy_def add_weak_live)

lemma weak_ptr_from_shared_live:
  assumes "deref h a = Some b" and "cb r = Some a"
  shows "weak_ptr_from_shared h r =
     Some (\<lparr>wcb = Some a, wptr = ptr r\<rparr>, put h a (b\<lparr>weak_count := weak_count b + 1\<rparr>))"
  using assms by (simp add: weak_ptr_from_shared_def add_weak_live)

lemma shared_ptr_from_weak_live:
  assumes "deref h a = Some b" and "wcb r = Some a"
  shows "shared_ptr_from_weak h r =
     Some (\<lparr>cb = Some a, ptr = wptr r\<rparr>, put h a (b\<lparr>ref_count := ref_count b + 1\<rparr>))"
  using assms by (simp add: shared_ptr_from_weak_def add_ref_live)

lemma expired_live:
  assumes "deref h a = Some b" and "wcb this = Some a"
  shows "expired h this = Some (ref_count b = 0)"
  using assms by (simp add: expired_def weak_ptr_use_count_def cb_use_count_live)

lemma lock_live:
  assumes "deref h a = Some b" and "wcb this = Some a"
  shows "lock h this =
     Some (if ref_count b = 0 then (shared_ptr_empty, h)
           else (\<lparr>cb = Some a, ptr = wptr this\<rparr>, put h a (b\<lparr>ref_count := ref_count b + 1\<rparr>)))"
  using assms by (simp add: lock_def expired_live shared_ptr_from_weak_live)

lemmas heap_simps = deref_put_same trace_put deref_log_event trace_log_event
  trace_operator_delete deref_operator_delete_same

lemma step_inv:
  assumes "block_inv a v h c" and "enabled c x"
    and "fst (owners c x) < 2 ^ 64" and "snd (owners c x) < 2 ^ 64"
  shows "\<exists>h'. step a p h x = Some h' \<and> block_inv a v h' (owners c x) \<and>
           ((x = Upgrade \<longrightarrow> 0 < fst c) \<longrightarrow> trace h = t @ events a v c \<longrightarrow>
              trace h' = t @ events a v (owners c x))"
proof -
  obtain s w where c: "c = (s, w)" by (cases c)
  from assms(2) c have nz: "\<not> (s = 0 \<and> w = 0)" by (cases x) auto
  with assms(1) c obtain b where b: "deref h a = Some b" "unat (ref_count b) = s"
     "unat (weak_count b) = w" "variant b = v"
    by (auto simp: block_inv_def)
  have z: "(ref_count b = 0) = (s = 0)" "(weak_count b = 0) = (w = 0)"
    "(ref_count b = 1) = (s = 1)" "(weak_count b = 1) = (w = 1)"
    using b by (auto simp: unat_eq_0 unat_is_1 [symmetric])
  show ?thesis
  proof (cases x)
    case Copy_shared
    then show ?thesis using assms(2-) c b
      by (auto simp: step_def shared_ptr_copy_live block_inv_def heap_simps events_def unat_inc)
  next
    case Destroy_shared
    then show ?thesis using assms(2-) c b z
      by (auto simp: step_def shared_ptr_dtor_live block_inv_def heap_simps events_def unat_dec)
  next
    case Weak_from_shared
    then show ?thesis using assms(2-) c b
      by (auto simp: step_def weak_ptr_from_shared_live block_inv_def heap_simps events_def
          unat_inc)
  next
    case Copy_weak
    then show ?thesis using assms(2-) c b
      by (auto simp: step_def weak_ptr_copy_live block_inv_def heap_simps events_def unat_inc)
  next
    case Destroy_weak
    then show ?thesis using assms(2-) c b z
      by (auto simp: step_def weak_ptr_dtor_live block_inv_def heap_simps events_def unat_dec)
  next
    case Lock
    then show ?thesis using assms(2-) c b z
      by (auto simp: step_def lock_live block_inv_def heap_simps events_def unat_inc)
  next
    case Upgrade
    then show ?thesis using assms(2-) c b z
      by (auto simp: step_def shared_ptr_from_weak_live block_inv_def heap_simps events_def
          unat_inc)
  qed
qed

lemma exec_inv:
  assumes "block_inv a v h c" and "respects_protocol c ops" and "bounded c ops"
  shows "\<exists>h'. exec a p h ops = Some h' \<and> block_inv a v h' (final_owners c ops) \<and>
           (upgrades_live c ops \<longrightarrow> trace h = t @ events a v c \<longrightarrow>
              trace h' = t @ events a v (final_owners c ops))"
  using assms
proof (induction ops arbitrary: h c)
  case Nil
  then show ?case by simp
next
  case (Cons x xs)
  from Cons.prems have en: "enabled c x" and lim: "fst (owners c x) < 2 ^ 64"
    "snd (owners c x) < 2 ^ 64" and rest: "respects_protocol (owners c x) xs"
    "bounded (owners c x) xs"
    by simp_all
  from step_inv [OF Cons.prems(1) en lim, of p t] obtain h1 where
    h1: "step a p h x = Some h1" "block_inv a v h1 (owners c x)"
    "(x = Upgrade \<longrightarrow> 0 < fst c) \<longrightarrow> trace h = t @ events a v c \<longrightarrow>
       trace h1 = t @ events a v (owners c x)"
    by blast
  from Cons.IH [OF h1(2) rest] obtain h' where
    h': "exec a p h1 xs = Some h'" "block_inv a v h' (final_owners (owners c x) xs)"
    "upgrades_live (owners c x) xs \<longrightarrow> trace h1 = t @ events a v (owners c x) \<longrightarrow>
       trace h' = t @ events a v (final_owners (owners c x) xs)"
    by blast
  show ?case using h1 h' by simp
qed

section \<open>Evaluating the examples\<close>

lemmas example_simps = shared_ptr_copy_def add_ref_def add_weak_def deref_def put_def
  shared_ptr_dtor_def weak_ptr_dtor_def release_ref_def release_weak_def cb_use_count_def
  weak_use_count_def delete_object_def log_event_def delete_cb_def operator_delete_def
  step_def weak_ptr_from_shared_def weak_ptr_copy_def shared_ptr_from_weak_def lock_def
  expired_def weak_ptr_use_count_def shared_ptr_use_count_def shared_ptr_empty_def

lemma ctor_heap0: "shared_ptr_ctor heap0 (Some (Ext 7)) 3 = (Inr shared0, heap1 1 0 [])"
  by (simp add: shared_ptr_ctor_def new_control_block_ptr_def operator_new_def put_def)

lemma shared_ptr_use_count_live:
  "deref h a = Some b \<Longrightarrow> cb this = Some a \<Longrightarrow> shared_ptr_use_count h this = Some (ref_count b)"
  by (simp add: shared_ptr_use_count_def cb_use_count_live)

section \<open>Counting the owners of a payload\<close>

text \<open>
  Claim C1.  After a Shared Pointer \<open>p1\<close> has been constructed from a raw pointer \<open>p\<close>
  with a deleter \<open>d\<close>, its \<^verbatim>\<open>use_count()\<close> is 1.  After a copy \<open>p2\<close> has been made,
  both handles report 2.  Destroying the copy brings the count of \<open>p1\<close> back to 1 and
  destroys nothing.  Destroying \<open>p1\<close> then invokes the deleter on \<open>p\<close> exactly once and
  deallocates the block: these two events are all that the trace gains.
\<close>

theorem use_count_protocol:
  assumes "shared_ptr_ctor h p d = (Inr p1, h1)"
  shows "shared_ptr_use_count h1 p1 = Some 1 \<and>
    (\<exists>p2 h2. shared_ptr_copy h1 p1 = Some (p2, h2) \<and>
        shared_ptr_use_count h2 p1 = Some 2 \<and> shared_ptr_use_count h2 p2 = Some 2 \<and>
      (\<exists>h3. shared_ptr_dtor h2 p2 = Some h3 \<and> shared_ptr_use_count h3 p1 = Some 1 \<and>
             trace h3 = trace h1 \<and>
        (\<exists>h4 a. shared_ptr_dtor h3 p1 = Some h4 \<and> cb p1 = Some a \<and>
             trace h4 = trace h1 @ [Invoke d p, Deallocated a] \<and> deref h4 a = None)))"
proof -
  let ?a = "length (cells h)"
  let ?b = "\<lparr>ref_count = 1, weak_count = 0, variant = Control_block_ptr p d\<rparr> :: ('a, 'b) control_block"
  from shared_ptr_ctor_ok [OF assms] have p1: "cb p1 = Some ?a" "ptr p1 = p"
    and b1: "deref h1 ?a = Some ?b"
    by simp_all
  define p2 where "p2 = \<lparr>cb = Some ?a, ptr = ptr p1\<rparr>"
  define h2 where "h2 = put h1 ?a (?b\<lparr>ref_count := 2\<rparr>)"
  define h3 where "h3 = put h2 ?a (?b\<lparr>ref_count := 1\<rparr>)"
  define h4 where "h4 = operator_delete (log_event (put h3 ?a (?b\<lparr>ref_count := 0\<rparr>)) (Invoke d p)) ?a"
  have c1: "shared_ptr_use_count h1 p1 = Some 1"
    using shared_ptr_use_count_live [OF b1 p1(1)] by simp
  have copy: "shared_ptr_copy h1 p1 = Some (p2, h2)"
    using shared_ptr_copy_live [OF b1 p1(1)] by (simp add: p2_def h2_def)
  have b2: "deref h2 ?a = Some (?b\<lparr>ref_count := 2\<rparr>)"
    unfolding h2_def by (rule deref_put_same [OF b1])
  have c2: "shared_ptr_use_count h2 p1 = Some 2" "shared_ptr_use_count h2 p2 = Some 2"
    using shared_ptr_use_count_live [OF b2 p1(1)] shared_ptr_use_count_live [OF b2, of p2]
    by (simp_all add: p2_def)
  have d2: "shared_ptr_dtor h2 p2 = Some h3"
    using shared_ptr_dtor_live [OF b2, of p2] by (simp add: p2_def h3_def)
  have b3: "deref h3 ?a = Some (?b\<lparr>ref_count := 1\<rparr>)"
    unfolding h3_def by (rule deref_put_same [OF b2])
  have c3: "shared_ptr_use_count h3 p1 = Some 1"
    using shared_ptr_use_count_live [OF b3 p1(1)] by simp
  have t3: "trace h3 = trace h1"
    by (simp add: h3_def h2_def trace_put)
  have d3: "shared_ptr_dtor h3 p1 = Some h4"
    using shared_ptr_dtor_live [OF b3 p1(1)] by (simp add: h4_def payload_event_def)
  have t4: "trace h4 = trace h1 @ [Invoke d p, Deallocated ?a]"
    by (simp add: h4_def trace_operator_delete trace_log_event trace_put t3)
  have g4: "deref h4 ?a = None"
    by (simp add: h4_def deref_operator_delete_same)
  show ?thesis using c1 copy c2 d2 c3 t3 d3 p1(1) t4 g4 by blast
qed

text \<open>
  The theorem at the empty heap, for the object at address 7 and the deleter 3.
\<close>

theorem use_count_protocol_witness:
  "shared_ptr_ctor heap0 (Some (Ext 7)) 3 = (Inr shared0, heap1 1 0 []) \<and>
   shared_ptr_use_count (heap1 1 0 []) shared0 = Some 1 \<and>
    (\<exists>p2 h2. shared_ptr_copy (heap1 1 0 []) shared0 = Some (p2, h2) \<and>
        shared_ptr_use_count h2 shared0 = Some 2 \<and> shared_ptr_use_count h2 p2 = Some 2 \<and>
      (\<exists>h3. shared_ptr_dtor h2 p2 = Some h3 \<and> shared_ptr_use_count h3 shared0 = Some 1 \<and>
             trace h3 = trace (heap1 1 0 []) \<and>
        (\<exists>h4 a. shared_ptr_dtor h3 shared0 = Some h4 \<and> cb shared0 = Some a \<and>
             trace h4 = trace (heap1 1 0 []) @ [Invoke 3 (Some (Ext 7)), Deallocated a] \<and>
             deref h4 a = None)))"
  by (rule conjI [OF ctor_heap0 use_count_protocol [OF ctor_heap0]])

section \<open>Destruction of the payload and of the block\<close>

text \<open>
  For sequences of constructions and destructions of handles on one block: when the
  payload has an owner at the start, every destruction is that of a handle in scope, no
  counter wraps around and the converting constructor from a Weak Pointer is never applied
  to an expired one, then every operation is defined, the payload is destroyed when the
  last Shared Pointer goes and not before, and the block is deallocated when the last
  handle goes and not before.  Each event occurs at most once.
\<close>

lemma destroyed_exactly_once:
  assumes "deref h a = Some b" and "0 < unat (ref_count b)"
    and "respects_protocol (unat (ref_count b), unat (weak_count b)) ops"
    and "bounded (unat (ref_count b), unat (weak_count b)) ops"
    and "upgrades_live (unat (ref_count b), unat (weak_count b)) ops"
  shows "\<exists>h'. exec a p h ops = Some h' \<and>
           trace h' = trace h @
             events a (variant b) (final_owners (unat (ref_count b), unat (weak_count b)) ops)"
proof -
  let ?c = "(unat (ref_count b), unat (weak_count b))"
  have inv: "block_inv a (variant b) h ?c"
    using assms(1,2) by (simp add: block_inv_def)
  have t: "trace h = trace h @ events a (variant b) ?c"
    using assms(2) by (simp add: events_def)
  from exec_inv [OF inv assms(3,4), of p "trace h"] assms(5) t show ?thesis
    by blast
qed

text \<open>
  Claim C2.  The payload is to be destroyed exactly once in every interleaving of
  constructions and destructions in which each release follows its add.  The sequence
  below is one: a Weak Pointer is made from the only Shared Pointer, the Shared Pointer is
  destroyed (the deleter runs), a Shared Pointer is constructed from the Weak Pointer with
  the converting constructor, that Shared Pointer is destroyed (the deleter runs again, on
  the same pointer), and the Weak Pointer is destroyed.  The deleter is invoked twice.
\<close>

theorem upgrade_destroys_twice:
  "respects_protocol (1, 0) [Weak_from_shared, Destroy_shared, Upgrade, Destroy_shared, Destroy_weak] \<and>
   bounded (1, 0) [Weak_from_shared, Destroy_shared, Upgrade, Destroy_shared, Destroy_weak] \<and>
   exec 0 (Some (Ext 7)) (heap1 1 0 [])
     [Weak_from_shared, Destroy_shared, Upgrade, Destroy_shared, Destroy_weak] =
   Some \<lparr>cells = [None], mem_left = 1,
         trace = [Allocated 0, Invoke 3 (Some (Ext 7)), Invoke 3 (Some (Ext 7)), Deallocated 0]\<rparr>"
  by (simp add: example_simps)

section \<open>Upgrading a Weak Pointer\<close>

lemma expired_iff: "expired h w = Some True \<longleftrightarrow> weak_ptr_use_count h w = Some 0"
  by (cases "weak_ptr_use_count h w") (simp_all add: expired_def)

lemma lock_expired:
  assumes "expired h w = Some True"
  shows "lock h w = Some (shared_ptr_empty, h) \<and> cb shared_ptr_empty = None \<and>
         ptr shared_ptr_empty = None \<and> shared_ptr_use_count h shared_ptr_empty = Some 0"
  using assms by (simp add: lock_def shared_ptr_empty_def shared_ptr_use_count_def)

lemma lock_not_expired:
  assumes "expired h w = Some False"
  shows "\<exists>a b. wcb w = Some a \<and> deref h a = Some b \<and>
           lock h w = Some (\<lparr>cb = Some a, ptr = wptr w\<rparr>,
                            put h a (b\<lparr>ref_count := ref_count b + 1\<rparr>))"
proof -
  from assms obtain a where a: "wcb w = Some a"
    by (cases "wcb w") (simp_all add: expired_def weak_ptr_use_count_def)
  with assms obtain b where b: "deref h a = Some b"
    by (cases "deref h a") (simp_all add: expired_def weak_ptr_use_count_def cb_use_count_def)
  from assms expired_live [OF b a] have "ref_count b \<noteq> 0" by simp
  with lock_live [OF b a] a b show ?thesis by simp
qed

text \<open>
  Claim C3.  Upgrading a Weak Pointer whose block reports strong count zero is to produce
  the empty handle and to change no counter.  \<^verbatim>\<open>lock\<close> does so, but the converting
  constructor \<^verbatim>\<open>shared_ptr(weak_ptr<Y> const&)\<close> does not: on the block of the example,
  with strong count 0 and weak count 1 after the deleter has run, it returns a handle on
  the block and raises the strong count to 1.
\<close>

theorem upgrade_of_expired:
  "expired (heap1 0 1 [Invoke 3 (Some (Ext 7))]) weak0 = Some True \<and>
   shared_ptr_from_weak (heap1 0 1 [Invoke 3 (Some (Ext 7))]) weak0 =
     Some (shared0, heap1 1 1 [Invoke 3 (Some (Ext 7))]) \<and>
   shared_ptr_use_count (heap1 1 1 [Invoke 3 (Some (Ext 7))]) shared0 = Some 1 \<and>
   shared0 \<noteq> shared_ptr_empty \<and>
   lock (heap1 0 1 [Invoke 3 (Some (Ext 7))]) weak0 =
     Some (shared_ptr_empty, heap1 0 1 [Invoke 3 (Some (Ext 7))])"
  by (simp add: example_simps)

text \<open>
  Claim C7.  \<^verbatim>\<open>expired()\<close> is true exactly when the strong count that the Weak Pointer
  observes is 0, and a Weak Pointer without control block observes 0.  When the counters
  of the block at \<open>a\<close> are the numbers of handles in scope, then after any sequence of
  operations that respects the protocol and that leaves no Shared Pointer but at least one
  Weak Pointer, the Weak Pointer \<open>wk\<close> on that block is expired and \<^verbatim>\<open>lock\<close> returns the
  empty Shared Pointer, leaving the heap as it is.
\<close>

theorem expired_after_last_owner:
  "(expired h wk = Some True \<longleftrightarrow> weak_ptr_use_count h wk = Some 0) \<and>
   (expired h wk = Some False \<longleftrightarrow> (\<exists>n. weak_ptr_use_count h wk = Some n \<and> n \<noteq> 0)) \<and>
   (wcb wk = None \<longrightarrow> weak_ptr_use_count h wk = Some 0 \<and> expired h wk = Some True) \<and>
   (wcb wk = Some a \<and> block_inv a v h c \<and> respects_protocol c ops \<and> bounded c ops \<and>
    fst (final_owners c ops) = 0 \<and> 0 < snd (final_owners c ops) \<longrightarrow>
      (\<exists>h'. exec a p h ops = Some h' \<and> expired h' wk = Some True \<and>
            lock h' wk = Some (shared_ptr_empty, h')))"
proof -
  have A: "expired h wk = Some True \<longleftrightarrow> weak_ptr_use_count h wk = Some 0"
    by (rule expired_iff)
  have A': "expired h wk = Some False \<longleftrightarrow> (\<exists>n. weak_ptr_use_count h wk = Some n \<and> n \<noteq> 0)"
    by (cases "weak_ptr_use_count h wk") (simp_all add: expired_def)
  have B: "wcb wk = None \<longrightarrow> weak_ptr_use_count h wk = Some 0 \<and> expired h wk = Some True"
    by (simp add: expired_def weak_ptr_use_count_def)
  have C: "\<exists>h'. exec a p h ops = Some h' \<and> expired h' wk = Some True \<and>
            lock h' wk = Some (shared_ptr_empty, h')"
    if H: "wcb wk = Some a \<and> block_inv a v h c \<and> respects_protocol c ops \<and> bounded c ops \<and>
      fst (final_owners c ops) = 0 \<and> 0 < snd (final_owners c ops)"
  proof -
    from exec_inv [of a v h c ops p "[]"] H obtain h' where
      h': "exec a p h ops = Some h'" "block_inv a v h' (final_owners c ops)"
      by blast
    from h'(2) H obtain b where b: "deref h' a = Some b" "unat (ref_count b) = 0"
      by (auto simp: block_inv_def)
    from b(2) have "ref_count b = 0" by (simp add: unat_eq_0)
    with expired_live [OF b(1), of wk] H have e: "expired h' wk = Some True" by simp
    from lock_expired [OF e] e h'(1) show ?thesis by blast
  qed
  from A A' B C show ?thesis by blast
qed

text \<open>
  The theorem at a Weak Pointer without control block, and at the block of the example
  with two Shared Pointers and one Weak Pointer in scope: one Shared Pointer is destroyed,
  the Weak Pointer is locked, and the two Shared Pointers that are left are destroyed.
\<close>

theorem expired_after_last_owner_witness:
  "(wcb weak_ptr_empty = None \<and>
    weak_ptr_use_count heap0 weak_ptr_empty = Some 0 \<and> expired heap0 weak_ptr_empty = Some True) \<and>
   (wcb weak0 = Some 0 \<and> block_inv 0 (Control_block_ptr (Some (Ext 7)) 3) (heap1 2 1 []) (2, 1) \<and>
    respects_protocol (2, 1) [Destroy_shared, Lock, Destroy_shared, Destroy_shared] \<and>
    bounded (2, 1) [Destroy_shared, Lock, Destroy_shared, Destroy_shared] \<and>
    fst (final_owners (2, 1) [Destroy_shared, Lock, Destroy_shared, Destroy_shared]) = 0 \<and>
    0 < snd (final_owners (2, 1) [Destroy_shared, Lock, Destroy_shared, Destroy_shared])) \<and>
   (\<exists>h'. exec 0 (Some (Ext 7)) (heap1 2 1 [])
            [Destroy_shared, Lock, Destroy_shared, Destroy_shared] = Some h' \<and>
         expired h' weak0 = Some True \<and> lock h' weak0 = Some (shared_ptr_empty, h'))"
proof -
  have n: "wcb weak_ptr_empty = None"
    by (simp add: weak_ptr_empty_def)
  have hyp: "wcb weak0 = Some 0 \<and>
    block_inv 0 (Control_block_ptr (Some (Ext 7)) 3) (heap1 2 1 []) (2, 1) \<and>
    respects_protocol (2, 1) [Destroy_shared, Lock, Destroy_shared, Destroy_shared] \<and>
    bounded (2, 1) [Destroy_shared, Lock, Destroy_shared, Destroy_shared] \<and>
    fst (final_owners (2, 1) [Destroy_shared, Lock, Destroy_shared, Destroy_shared]) = 0 \<and>
    0 < snd (final_owners (2, 1) [Destroy_shared, Lock, Destroy_shared, Destroy_shared])"
    by (simp add: block_inv_def deref_def)
  note inst = expired_after_last_owner [of heap0 weak_ptr_empty]
    expired_after_last_owner [of "heap1 2 1 []" weak0 0 "Control_block_ptr (Some (Ext 7)) 3"
      "(2, 1)" "[Destroy_shared, Lock, Destroy_shared, Destroy_shared]" "Some (Ext 7)"]
  from inst n hyp show ?thesis by blast
qed

section \<open>Exceptions\<close>

lemma make_shared_ok:
  assumes "ctor args = Inr y" and "mem_left h \<noteq> 0"
  shows "make_shared h ctor args =
     (Inr \<lparr>cb = Some (length (cells h)), ptr = Some (Data (length (cells h)))\<rparr>,
      h\<lparr>cells := cells h @ [Some \<lparr>ref_count = 1, weak_count = 0, variant = Control_block_obj y\<rparr>],
        mem_left := mem_left h - 1, trace := trace h @ [Allocated (length (cells h))]\<rparr>)"
  using assms
  by (simp add: make_shared_def new_control_block_obj_def operator_new_def put_def
      shared_ptr_empty_def)

text \<open>
  Claim C4.  When the constructor of the payload throws on the arguments that
  \<^verbatim>\<open>make_shared\<close> forwards, \<^verbatim>\<open>make_shared\<close> returns no Shared Pointer but an exception:
  that of the constructor, or \<^verbatim>\<open>std::bad_alloc\<close> when the allocation failed before the
  constructor ran.  No memory is leaked: every address holds what it held before and as
  much memory is left as before.  The trace gains the allocation of the block and its
  deallocation and nothing else; no payload is destroyed.
\<close>

theorem make_shared_ctor_throws:
  assumes "ctor args = Inl e"
  shows "fst (make_shared h ctor args) = Inl (if mem_left h = 0 then Bad_alloc else e) \<and>
         (\<forall>x. deref (snd (make_shared h ctor args)) x = deref h x) \<and>
         mem_left (snd (make_shared h ctor args)) = mem_left h \<and>
         trace (snd (make_shared h ctor args)) =
           trace h @ (if mem_left h = 0 then []
                      else [Allocated (length (cells h)), Deallocated (length (cells h))])"
  using assms
  by (auto simp: make_shared_def new_control_block_obj_def operator_new_def operator_delete_def
      deref_def nth_append)

text \<open>
  The theorem at the empty heap, for the example payload constructed from \<open>- 5\<close>.
\<close>

theorem make_shared_ctor_throws_witness:
  "natural (- 5) = Inl (Payload_exn 1) \<and>
   fst (make_shared heap0 natural (- 5)) =
     Inl (if mem_left heap0 = 0 then Bad_alloc else Payload_exn 1) \<and>
   (\<forall>x. deref (snd (make_shared heap0 natural (- 5))) x = deref heap0 x) \<and>
   mem_left (snd (make_shared heap0 natural (- 5))) = mem_left heap0 \<and>
   trace (snd (make_shared heap0 natural (- 5))) =
     trace heap0 @ (if mem_left heap0 = 0 then []
                    else [Allocated (length (cells heap0)), Deallocated (length (cells heap0))])"
proof -
  have hyp: "natural (- 5) = Inl (Payload_exn 1)"
    by (simp add: natural_def)
  show ?thesis
    by (rule conjI [OF hyp make_shared_ctor_throws [of natural "- 5", OF hyp]])
qed

text \<open>
  Claim C5.  When the allocation of the control block fails while a Shared Pointer is
  constructed from a raw pointer \<open>p\<close> and a deleter \<open>d\<close>, the constructor invokes
  \<open>d\<close> on \<open>p\<close> once, changes nothing else, and the allocation failure propagates: no
  Shared Pointer is produced.  When the allocation succeeds, a Shared Pointer is produced
  and the trace gains the allocation only; the deleter is not invoked.
\<close>

theorem ctor_allocation_failure:
  "(mem_left h = 0 \<longrightarrow>
      shared_ptr_ctor h p d = (Inl Bad_alloc, log_event h (Invoke d p)) \<and>
      trace (log_event h (Invoke d p)) = trace h @ [Invoke d p]) \<and>
   (mem_left h \<noteq> 0 \<longrightarrow>
      (\<exists>p1 h1. shared_ptr_ctor h p d = (Inr p1, h1) \<and>
               trace h1 = trace h @ [Allocated (length (cells h))]))"
  by (simp add: shared_ptr_ctor_def new_control_block_ptr_def operator_new_def put_def
      log_event_def)

text \<open>
  The theorem at a heap with no memory left and at a heap with room for one block.
\<close>

theorem ctor_allocation_failure_witness:
  "mem_left (heap0\<lparr>mem_left := 0\<rparr>) = 0 \<and>
   shared_ptr_ctor (heap0\<lparr>mem_left := 0\<rparr>) (Some (Ext 7)) (3::nat) =
     (Inl Bad_alloc, \<lparr>cells = [], mem_left = 0, trace = [Invoke 3 (Some (Ext 7))]\<rparr>) \<and>
   mem_left heap0 \<noteq> 0 \<and>
   (\<exists>p1 h1. shared_ptr_ctor heap0 (Some (Ext 7)) (3::nat) = (Inr p1, h1) \<and>
            trace h1 = [Allocated 0])"
  using ctor_allocation_failure [of "heap0\<lparr>mem_left := 0\<rparr>" "Some (Ext 7)" 3]
    ctor_allocation_failure [of heap0 "Some (Ext 7)" 3]
  by (simp add: log_event_def)

section \<open>Moving\<close>

text \<open>
  Claim C6.  The move constructor of a Shared Pointer gives the new handle the control
  block and the payload pointer of its source, leaves the source empty (both fields null,
  \<^verbatim>\<open>use_count()\<close> 0), and returns the heap as it was: no counter is incremented or
  decremented.  The same holds for the move constructor of a Weak Pointer.
\<close>

theorem move_leaves_source_empty:
  "shared_ptr_move h rhs = (\<lparr>cb = cb rhs, ptr = ptr rhs\<rparr>, shared_ptr_empty, h) \<and>
   cb shared_ptr_empty = None \<and> ptr shared_ptr_empty = None \<and>
   shared_ptr_use_count h shared_ptr_empty = Some 0 \<and>
   weak_ptr_move h r = (\<lparr>wcb = wcb r, wptr = wptr r\<rparr>, weak_ptr_empty, h) \<and>
   wcb weak_ptr_empty = None \<and> wptr weak_ptr_empty = None \<and>
   weak_ptr_use_count h weak_ptr_empty = Some 0"
  by (simp add: shared_ptr_move_def weak_ptr_move_def shared_ptr_empty_def weak_ptr_empty_def
      shared_ptr_use_count_def weak_ptr_use_count_def)

section \<open>Aliasing\<close>

lemma shared_ptr_alias_live:
  assumes "deref h a = Some b" and "cb r = Some a"
  shows "shared_ptr_alias h r q =
     Some (\<lparr>cb = Some a, ptr = q\<rparr>, put h a (b\<lparr>ref_count := ref_count b + 1\<rparr>))"
  using assms by (simp add: shared_ptr_alias_def add_ref_live)



section \<open>Self-assignment\<close>

lemma cb_update_same: "cb p = c \<Longrightarrow> p\<lparr>cb := c\<rparr> = p"
  by auto

lemma wcb_update_same: "wcb p = c \<Longrightarrow> p\<lparr>wcb := c\<rparr> = p"
  by auto

text \<open>
  Claim C9.  Assigning the variable \<open>x\<close> to itself, by copy assignment or by move
  assignment, leaves the heap and every variable as they were, for a well-formed Shared
  Pointer as for a well-formed Weak Pointer: the handle keeps its control block and its
  payload pointer, both counters of the block keep their values, and the trace gains no
  event, so that no payload is destroyed and no block is deallocated.  (Copy assignment
  takes a reference for its temporary and gives it back.)
\<close>

theorem self_assignment:
  "(shared_ptr_valid h (st x) \<longrightarrow>
      shared_ptr_copy_assign h st x x = Some (h, st) \<and>
      shared_ptr_move_assign h st x x = Some (h, st)) \<and>
   (weak_ptr_valid h (wst x) \<longrightarrow>
      weak_ptr_copy_assign h wst x x = Some (h, wst) \<and>
      weak_ptr_move_assign h wst x x = Some (h, wst))"
proof -
  have S: "shared_ptr_copy_assign h st x x = Some (h, st)" if "shared_ptr_valid h (st x)"
  proof (cases "cb (st x)")
    case None
    then show ?thesis
      by (simp add: shared_ptr_copy_assign_def shared_ptr_copy_def shared_ptr_swap_def
          shared_ptr_dtor_def cb_update_same)
  next
    case (Some a)
    with that obtain b where b: "deref h a = Some b" "ref_count b \<noteq> 0"
      by (auto simp: shared_ptr_valid_def split: option.splits)
    let ?h1 = "put h a (b\<lparr>ref_count := ref_count b + 1\<rparr>)"
    have d1: "deref ?h1 a = Some (b\<lparr>ref_count := ref_count b + 1\<rparr>)"
      by (rule deref_put_same [OF b(1)])
    have "shared_ptr_dtor ?h1 \<lparr>cb = Some a, ptr = ptr (st x)\<rparr> = Some h"
      using shared_ptr_dtor_live [OF d1, of "\<lparr>cb = Some a, ptr = ptr (st x)\<rparr>"] b(2)
      by (simp add: put_put put_same [OF b(1)])
    then show ?thesis
      using shared_ptr_copy_live [OF b(1) Some] Some
      by (simp add: shared_ptr_copy_assign_def shared_ptr_swap_def cb_update_same)
  qed
  have W: "weak_ptr_copy_assign h wst x x = Some (h, wst)" if "weak_ptr_valid h (wst x)"
  proof (cases "wcb (wst x)")
    case None
    then show ?thesis
      by (simp add: weak_ptr_copy_assign_def weak_ptr_copy_def weak_ptr_swap_def
          weak_ptr_dtor_def wcb_update_same)
  next
    case (Some a)
    with that obtain b where b: "deref h a = Some b" "weak_count b \<noteq> 0"
      by (auto simp: weak_ptr_valid_def split: option.splits)
    let ?h1 = "put h a (b\<lparr>weak_count := weak_count b + 1\<rparr>)"
    have d1: "deref ?h1 a = Some (b\<lparr>weak_count := weak_count b + 1\<rparr>)"
      by (rule deref_put_same [OF b(1)])
    have "weak_ptr_dtor ?h1 \<lparr>wcb = Some a, wptr = wptr (wst x)\<rparr> = Some h"
      using weak_ptr_dtor_live [OF d1, of "\<lparr>wcb = Some a, wptr = wptr (wst x)\<rparr>"] b(2)
      by (simp add: put_put put_same [OF b(1)])
    then show ?thesis
      using weak_ptr_copy_live [OF b(1) Some] Some
      by (simp add: weak_ptr_copy_assign_def weak_ptr_swap_def wcb_update_same)
  qed
  show ?thesis using S W
    by (simp add: shared_ptr_move_assign_def weak_ptr_move_assign_def)
qed

text \<open>
  The theorem at the block of the example with one Shared Pointer and one Weak Pointer.
\<close>

theorem self_assignment_witness:
  "shared_ptr_valid (heap1 1 1 []) (shared_vars 0) \<and>
   shared_ptr_copy_assign (heap1 1 1 []) shared_vars 0 0 = Some (heap1 1 1 [], shared_vars) \<and>
   shared_ptr_move_assign (heap1 1 1 []) shared_vars 0 0 = Some (heap1 1 1 [], shared_vars) \<and>
   weak_ptr_valid (heap1 1 1 []) (weak_vars 0) \<and>
   weak_ptr_copy_assign (heap1 1 1 []) weak_vars 0 0 = Some (heap1 1 1 [], weak_vars) \<and>
   weak_ptr_move_assign (heap1 1 1 []) weak_vars 0 0 = Some (heap1 1 1 [], weak_vars)"
proof -
  have hyp: "shared_ptr_valid (heap1 1 1 []) (shared_vars 0)"
    "weak_ptr_valid (heap1 1 1 []) (weak_vars 0)"
    by (simp_all add: shared_ptr_valid_def weak_ptr_valid_def deref_def)
  from self_assignment [of "heap1 1 1 []" shared_vars 0 weak_vars] hyp show ?thesis
    by blast
qed

section \<open>Truth test and comparison with the null pointer\<close>

text \<open>
  The aliasing constructor shares whatever control block its source has.  Applied to the
  empty handle and a null pointer, as in
  \<^verbatim>\<open>shared_ptr<int> e; shared_ptr<int> m(e, nullptr);\<close>, it returns a handle without
  control block and leaves the heap alone, so that \<^verbatim>\<open>m.use_count()\<close> is 0 and not at
  least 1.
\<close>

theorem alias_of_empty_counterexample:
  "shared_ptr_alias heap0 shared_ptr_empty None = Some (shared_ptr_empty, heap0) \<and>
   shared_ptr_use_count heap0 shared_ptr_empty = Some 0 \<and>
   \<not> shared_ptr_bool shared_ptr_empty \<and> shared_ptr_eq_nullptr shared_ptr_empty \<and>
   \<not> (1 :: size_t) \<le> 0"
  by (simp add: shared_ptr_alias_def shared_ptr_empty_def shared_ptr_use_count_def
      shared_ptr_bool_def shared_ptr_eq_nullptr_def shared_ptr_get_def)

text \<open>
  Claim C10, amended.  The truth test of a Shared Pointer and its comparisons with
  \<^verbatim>\<open>nullptr\<close> depend on the payload pointer only: the handle tests true exactly when
  \<^verbatim>\<open>get()\<close> is not null, and replacing its control block changes neither result.  A
  Shared Pointer constructed from a null raw pointer has \<^verbatim>\<open>use_count()\<close> 1, tests false
  and is equal to \<^verbatim>\<open>nullptr\<close>.  A Shared Pointer constructed by aliasing a handle that
  has a control block (an allocated one, whose strong count is not at its maximum), with a
  null pointer to expose, has a \<^verbatim>\<open>use_count()\<close> of at least 1, tests false and is equal
  to \<^verbatim>\<open>nullptr\<close>.
\<close>

theorem truth_test_ignores_control_block:
  "shared_ptr_bool p = (shared_ptr_get p \<noteq> None) \<and>
   shared_ptr_eq_nullptr p = (shared_ptr_get p = None) \<and>
   shared_ptr_ne_nullptr p = (shared_ptr_get p \<noteq> None) \<and>
   shared_ptr_bool (p\<lparr>cb := c\<rparr>) = shared_ptr_bool p \<and>
   shared_ptr_eq_nullptr (p\<lparr>cb := c\<rparr>) = shared_ptr_eq_nullptr p \<and>
   (shared_ptr_ctor h None d = (Inr q, hq) \<longrightarrow>
      shared_ptr_use_count hq q = Some 1 \<and> \<not> shared_ptr_bool q \<and> shared_ptr_eq_nullptr q) \<and>
   (cb r = Some a \<and> deref h a = Some blk \<and> ref_count blk + 1 \<noteq> 0 \<longrightarrow>
      (\<exists>m h2 n. shared_ptr_alias h r None = Some (m, h2) \<and>
         shared_ptr_use_count h2 m = Some n \<and> 1 \<le> n \<and>
         \<not> shared_ptr_bool m \<and> shared_ptr_eq_nullptr m))"
proof -
  have A: "shared_ptr_use_count hq q = Some 1 \<and> \<not> shared_ptr_bool q \<and> shared_ptr_eq_nullptr q"
    if "shared_ptr_ctor h None d = (Inr q, hq)"
    using shared_ptr_ctor_ok [OF that]
    by (simp add: shared_ptr_use_count_def cb_use_count_def shared_ptr_bool_def
        shared_ptr_eq_nullptr_def shared_ptr_get_def)
  have B: "\<exists>m h2 n. shared_ptr_alias h r None = Some (m, h2) \<and>
         shared_ptr_use_count h2 m = Some n \<and> 1 \<le> n \<and>
         \<not> shared_ptr_bool m \<and> shared_ptr_eq_nullptr m"
    if H: "cb r = Some a \<and> deref h a = Some blk \<and> ref_count blk + 1 \<noteq> 0"
  proof -
    from H have r: "cb r = Some a" and b: "deref h a = Some blk" and n: "ref_count blk + 1 \<noteq> 0"
      by simp_all
    let ?m = "\<lparr>cb = Some a, ptr = None\<rparr>"
    let ?h2 = "put h a (blk\<lparr>ref_count := ref_count blk + 1\<rparr>)"
    have "shared_ptr_use_count ?h2 ?m = Some (ref_count blk + 1)"
      using shared_ptr_use_count_live [OF deref_put_same [OF b], of ?m] by simp
    moreover from n have "1 \<le> ref_count blk + 1"
      by (metis not_less word_less_1)
    ultimately show ?thesis
      using shared_ptr_alias_live [OF b r, of None]
      by (simp add: shared_ptr_bool_def shared_ptr_eq_nullptr_def shared_ptr_get_def)
  qed
  show ?thesis using A B
    by (simp add: shared_ptr_bool_def shared_ptr_eq_nullptr_def shared_ptr_ne_nullptr_def
        shared_ptr_get_def)
qed

text \<open>
  The theorem at the construction from a null pointer on the empty heap, and at the
  aliasing of the owner of the block of the example.
\<close>

theorem truth_test_ignores_control_block_witness:
  "shared_ptr_ctor heap0 None 3 = (Inr shared2, heap2) \<and>
   shared_ptr_use_count heap2 shared2 = Some 1 \<and>
   \<not> shared_ptr_bool shared2 \<and> shared_ptr_eq_nullptr shared2 \<and>
   cb shared0 = Some 0 \<and> deref (heap1 1 0 []) 0 = Some (block0 1 0) \<and>
   ref_count (block0 1 0) + 1 \<noteq> 0 \<and>
   (\<exists>m h2 n. shared_ptr_alias (heap1 1 0 []) shared0 None = Some (m, h2) \<and>
      shared_ptr_use_count h2 m = Some n \<and> 1 \<le> n \<and>
      \<not> shared_ptr_bool m \<and> shared_ptr_eq_nullptr m)"
proof -
  have hyp1: "shared_ptr_ctor heap0 None 3 = (Inr shared2, heap2)"
    by (simp add: shared_ptr_ctor_def new_control_block_ptr_def operator_new_def put_def)
  have hyp2: "cb shared0 = Some 0 \<and> deref (heap1 1 0 []) 0 = Some (block0 1 0) \<and>
     ref_count (block0 1 0) + 1 \<noteq> 0"
    by (simp add: deref_def)
  note inst = truth_test_ignores_control_block [where h = heap0 and d = 3 and q = shared2 and
      hq = heap2]
    truth_test_ignores_control_block [where h = "heap1 1 0 []" and r = shared0 and a = 0 and
      blk = "block0 1 0"]
  from inst hyp1 hyp2 show ?thesis by blast
qed

end
